theory Spec2Isabelle
  imports Main
begin

section \<open>Versioned configuration store\<close>

text \<open>
  The development embeds \<^verbatim>\<open>src/config_parser_versioned_rollback.py\<close>, the script
  with deduplication and rollback. (\<^verbatim>\<open>src/auto_config_save.py\<close> is its predecessor:
  the same functions without the dedup lookup, the rollback and the top-level check
  of \<^verbatim>\<open>read_config\<close>.)
\<close>

subsection \<open>Parsed documents\<close>

text \<open>
  What \<^verbatim>\<open>yaml.safe_load\<close> hands to the script: \<^verbatim>\<open>None\<close>, booleans, unbounded
  integers, strings, lists and dicts with string keys. A dict is an association list
  in insertion order, the order in which pymongo encodes it. Floats, dates and
  binary scalars are outside the model. A character stands for a code point below
  256.
\<close>

datatype yaml =
    YNone
  | YBool bool
  | YInt int
  | YStr string
  | YList "yaml list"
  | YDict "(string \<times> yaml) list"

datatype exn = ValueError | MongoError | IOError

subsection \<open>Python string tests\<close>

text \<open>
  \<^verbatim>\<open>str.isdigit\<close> accepts the decimal digits and, below 256, the superscripts
  U+00B2, U+00B3 and U+00B9. \<^verbatim>\<open>int\<close> accepts only the decimal digits among them
  and raises \<^verbatim>\<open>ValueError\<close> on the superscripts.
\<close>

definition is_decimal :: "char \<Rightarrow> bool" where
  "is_decimal c = (48 \<le> (of_char c :: nat) \<and> (of_char c :: nat) \<le> 57)"

definition is_superscript :: "char \<Rightarrow> bool" where
  "is_superscript c =
     ((of_char c :: nat) = 178 \<or> (of_char c :: nat) = 179 \<or> (of_char c :: nat) = 185)"

definition isdigit :: "string \<Rightarrow> bool" where
  "isdigit s = (s \<noteq> [] \<and> list_all (\<lambda>c. is_decimal c \<or> is_superscript c) s)"

definition digit_value :: "char \<Rightarrow> int" where
  "digit_value c = int (of_char c) - 48"

text \<open>\<^verbatim>\<open>int(v)\<close> on the strings the script passes to it, those with \<^verbatim>\<open>v.isdigit()\<close>.\<close>

definition py_int :: "string \<Rightarrow> exn + int" where
  "py_int s =
     (if s \<noteq> [] \<and> list_all is_decimal s
      then Inr (foldl (\<lambda>acc c. 10 * acc + digit_value c) 0 s)
      else Inl ValueError)"

subsection \<open>Normalisation\<close>

text \<open>
  \<^verbatim>\<open>
  def convert_numeric_values(data):
      if isinstance(data, dict):
          for k, v in data.items():
              if isinstance(v, dict):
                  convert_numeric_values(v)
              elif isinstance(v, str) and v.isdigit():
                  data[k] = int(v)
      return data
  \<close>
  The dict is updated in place, key by key; \<open>convert_items\<close> is the loop. An
  exception of \<^verbatim>\<open>int\<close> leaves the loop at once.
\<close>

fun convert_numeric_values :: "yaml \<Rightarrow> exn + yaml"
  and convert_items :: "(string \<times> yaml) list \<Rightarrow> exn + (string \<times> yaml) list"
where
  "convert_numeric_values (YDict items) =
     (case convert_items items of
        Inl e \<Rightarrow> Inl e
      | Inr items' \<Rightarrow> Inr (YDict items'))"
| "convert_numeric_values data = Inr data"
| "convert_items [] = Inr []"
| "convert_items ((k, YDict d) # rest) =
     (case convert_numeric_values (YDict d) of
        Inl e \<Rightarrow> Inl e
      | Inr v' \<Rightarrow>
          (case convert_items rest of
             Inl e \<Rightarrow> Inl e
           | Inr rest' \<Rightarrow> Inr ((k, v') # rest')))"
| "convert_items ((k, YStr s) # rest) =
     (if isdigit s
      then (case py_int s of
              Inl e \<Rightarrow> Inl e
            | Inr n \<Rightarrow>
                (case convert_items rest of
                   Inl e \<Rightarrow> Inl e
                 | Inr rest' \<Rightarrow> Inr ((k, YInt n) # rest')))
      else (case convert_items rest of
              Inl e \<Rightarrow> Inl e
            | Inr rest' \<Rightarrow> Inr ((k, YStr s) # rest')))"
| "convert_items ((k, v) # rest) =
     (case convert_items rest of
        Inl e \<Rightarrow> Inl e
      | Inr rest' \<Rightarrow> Inr ((k, v) # rest'))"

subsection \<open>Version records and the world outside the script\<close>

text \<open>
  A stored document has the fields the script writes: \<^verbatim>\<open>version\<close>,
  \<^verbatim>\<open>timestamp\<close> (an instant, as a number), \<^verbatim>\<open>config\<close> and, on rollback records
  only, \<^verbatim>\<open>rolled_back_from\<close>.
\<close>

record version_record =
  version :: int
  timestamp :: nat
  config :: yaml
  rolled_back_from :: "int option"

text \<open>What the script prints, line by line.\<close>

datatype line =
    ErrTopLevel
  | ErrReadingYaml
  | DetectedChanges
  | AlreadyExists int
  | Saved int
  | ErrorSaving exn
  | ErrorFetching exn
  | RollbackComplete int

datatype file_event = Dumped yaml | DumpFailed

text \<open>
  The world holds the MongoDB collection in insertion order, the answers of the
  backend to the operations still to come (\<open>True\<close>: the operation is carried out,
  \<open>False\<close>: pymongo raises; once the list is used up every operation is carried
  out), the writes made to the configuration file, and the console.
\<close>

record world =
  collection :: "version_record list"
  backend :: "bool list"
  config_file :: "file_event list"
  console :: "line list"

definition print_line :: "line \<Rightarrow> world \<Rightarrow> world" where
  "print_line l w = w\<lparr>console := console w @ [l]\<rparr>"

definition up :: "world \<Rightarrow> bool" where
  "up w = (False \<notin> set (backend w))"

subsection \<open>The collection operations the script uses\<close>

text \<open>
  Each operation takes the next answer of the backend. \<^verbatim>\<open>find_one(filter)\<close> gives the
  first matching document in insertion order. \<^verbatim>\<open>find_one(sort=[("version", -1)])\<close>
  gives a document of greatest version.
\<close>

definition mongo_call :: "world \<Rightarrow> bool \<times> world" where
  "mongo_call w =
     ((case backend w of [] \<Rightarrow> True | b # _ \<Rightarrow> b), w\<lparr>backend := tl (backend w)\<rparr>)"

fun greatest_version :: "version_record list \<Rightarrow> version_record option" where
  "greatest_version [] = None"
| "greatest_version (r # rs) =
     (case greatest_version rs of
        None \<Rightarrow> Some r
      | Some m \<Rightarrow> if version r < version m then Some m else Some r)"

text \<open>
  The filter \<^verbatim>\<open>{"config": data}\<close>. When \<open>data\<close> is a mapping whose first key does not
  begin with \<^verbatim>\<open>$\<close> (or the empty mapping), the server matches the embedded document
  exactly: equal field by field, in the same key order. Every other value it reads
  in its query language: a mapping that begins with a \<^verbatim>\<open>$\<close> key is an operator
  expression (\<^verbatim>\<open>{"$ne": 1}\<close> matches every config other than 1), a scalar or a list
  has the matching rules of scalars and arrays. That reading is the parameter
  \<open>srv\<close>: \<open>None\<close> when the server rejects the filter, so that pymongo raises,
  otherwise the test applied to the stored config.
\<close>

type_synonym server = "yaml \<Rightarrow> (yaml \<Rightarrow> bool) option"

fun plain_mapping :: "yaml \<Rightarrow> bool" where
  "plain_mapping (YDict []) = True"
| "plain_mapping (YDict ((k, v) # rest)) = (case k of [] \<Rightarrow> True | c # _ \<Rightarrow> c \<noteq> CHR ''$'')"
| "plain_mapping _ = False"

definition config_filter :: "server \<Rightarrow> yaml \<Rightarrow> (version_record \<Rightarrow> bool) option" where
  "config_filter srv data =
     (if plain_mapping data then Some (\<lambda>r. config r = data)
      else (case srv data of None \<Rightarrow> None | Some p \<Rightarrow> Some (\<lambda>r. p (config r))))"

definition find_one_config ::
  "server \<Rightarrow> yaml \<Rightarrow> world \<Rightarrow> (exn + version_record option) \<times> world" where
  "find_one_config srv data w =
     (case mongo_call w of
        (ok, w') \<Rightarrow>
          if ok
          then (case config_filter srv data of
                  None \<Rightarrow> (Inl MongoError, w')
                | Some p \<Rightarrow> (Inr (find p (collection w')), w'))
          else (Inl MongoError, w'))"

text \<open>A server that rejects every filter it would read in its query language.\<close>

definition no_operators :: server where
  "no_operators q = None"

definition find_one_version :: "int \<Rightarrow> world \<Rightarrow> (exn + version_record option) \<times> world" where
  "find_one_version v w =
     (case mongo_call w of
        (ok, w') \<Rightarrow>
          if ok then (Inr (find (\<lambda>r. version r = v) (collection w')), w')
          else (Inl MongoError, w'))"

definition find_one_latest :: "world \<Rightarrow> (exn + version_record option) \<times> world" where
  "find_one_latest w =
     (case mongo_call w of
        (ok, w') \<Rightarrow>
          if ok then (Inr (greatest_version (collection w')), w')
          else (Inl MongoError, w'))"

definition find_sorted :: "world \<Rightarrow> (exn + version_record list) \<times> world" where
  "find_sorted w =
     (case mongo_call w of
        (ok, w') \<Rightarrow>
          if ok then (Inr (sort_key version (collection w')), w')
          else (Inl MongoError, w'))"

definition insert_one :: "version_record \<Rightarrow> world \<Rightarrow> (exn + unit) \<times> world" where
  "insert_one doc w =
     (case mongo_call w of
        (ok, w') \<Rightarrow>
          if ok then (Inr (), w'\<lparr>collection := collection w' @ [doc]\<rparr>)
          else (Inl MongoError, w'))"

text \<open>\<^verbatim>\<open>with open(CONFIG_FILE, 'w') as f: yaml.dump(config, f, ...)\<close>\<close>

definition dump_config :: "bool \<Rightarrow> yaml \<Rightarrow> world \<Rightarrow> (exn + unit) \<times> world" where
  "dump_config file_ok c w =
     (if file_ok then (Inr (), w\<lparr>config_file := config_file w @ [Dumped c]\<rparr>)
      else (Inl IOError, w\<lparr>config_file := config_file w @ [DumpFailed]\<rparr>))"

subsection \<open>save_to_mongo\<close>

text \<open>
  The function prints its outcome and returns \<^verbatim>\<open>None\<close> on every path: the bare
  \<^verbatim>\<open>return\<close> of the dedup branch, the end of the body, and the exception
  handler. The first component of the result is that returned value.
\<close>

definition save_to_mongo ::
  "server \<Rightarrow> nat \<Rightarrow> yaml \<Rightarrow> world \<Rightarrow> version_record option \<times> world" where
  "save_to_mongo srv now data w =
     (case find_one_config srv data w of
        (Inl e, w1) \<Rightarrow> (None, print_line (ErrorSaving e) w1)
      | (Inr (Some existing_doc), w1) \<Rightarrow>
          (None, print_line (AlreadyExists (version existing_doc)) w1)
      | (Inr None, w1) \<Rightarrow>
          (case find_one_latest w1 of
             (Inl e, w2) \<Rightarrow> (None, print_line (ErrorSaving e) w2)
           | (Inr last_doc, w2) \<Rightarrow>
               (let next_version = (case last_doc of None \<Rightarrow> 1 | Some l \<Rightarrow> version l + 1);
                    doc = \<lparr>version = next_version, timestamp = now, config = data,
                           rolled_back_from = None\<rparr>
                in case insert_one doc w2 of
                     (Inl e, w3) \<Rightarrow> (None, print_line (ErrorSaving e) w3)
                   | (Inr _, w3) \<Rightarrow> (None, print_line (Saved next_version) w3))))"

text \<open>A run of saves, each with the instant at which it builds its document.\<close>

fun save_all :: "server \<Rightarrow> (nat \<times> yaml) list \<Rightarrow> world \<Rightarrow> world" where
  "save_all srv [] w = w"
| "save_all srv ((now, data) # rest) w =
     save_all srv rest (snd (save_to_mongo srv now data w))"

subsection \<open>Reads\<close>

datatype pval = PInt int | PIsoformat nat | PConfig yaml | PNull

type_synonym payload = "(string \<times> pval) list"

definition fetch_latest_from_mongo :: "world \<Rightarrow> payload \<times> world" where
  "fetch_latest_from_mongo w =
     (case find_one_latest w of
        (Inl e, w1) \<Rightarrow> ([], print_line (ErrorFetching e) w1)
      | (Inr None, w1) \<Rightarrow> ([], w1)
      | (Inr (Some latest_doc), w1) \<Rightarrow>
          ([(''version'', PInt (version latest_doc)),
            (''timestamp'', PIsoformat (timestamp latest_doc)),
            (''config'', PConfig (config latest_doc))], w1))"

definition fetch_all_versions :: "world \<Rightarrow> payload list \<times> world" where
  "fetch_all_versions w =
     (case find_sorted w of
        (Inl e, w1) \<Rightarrow> ([], print_line (ErrorFetching e) w1)
      | (Inr docs, w1) \<Rightarrow>
          (map (\<lambda>doc.
                 [(''version'', PInt (version doc)),
                  (''timestamp'', PIsoformat (timestamp doc)),
                  (''config'', PConfig (config doc)),
                  (''rolled_back_from'',
                     (case rolled_back_from doc of None \<Rightarrow> PNull | Some v \<Rightarrow> PInt v))])
               docs, w1))"

subsection \<open>rollback_to_version\<close>

datatype message = NotFound int | RolledBack int int | ExnText exn

definition rollback_to_version ::
  "nat \<Rightarrow> bool \<Rightarrow> int \<Rightarrow> world \<Rightarrow> (bool \<times> message) \<times> world" where
  "rollback_to_version now file_ok v w =
     (case find_one_version v w of
        (Inl e, w1) \<Rightarrow> ((False, ExnText e), w1)
      | (Inr None, w1) \<Rightarrow> ((False, NotFound v), w1)
      | (Inr (Some doc), w1) \<Rightarrow>
          (case find_one_latest w1 of
             (Inl e, w2) \<Rightarrow> ((False, ExnText e), w2)
           | (Inr last_doc, w2) \<Rightarrow>
               (let next_version = (case last_doc of None \<Rightarrow> 1 | Some l \<Rightarrow> version l + 1);
                    rollback_doc = \<lparr>version = next_version, timestamp = now,
                                    config = config doc, rolled_back_from = Some v\<rparr>
                in case insert_one rollback_doc w2 of
                     (Inl e, w3) \<Rightarrow> ((False, ExnText e), w3)
                   | (Inr _, w3) \<Rightarrow>
                       (case dump_config file_ok (config doc) w3 of
                          (Inl e, w4) \<Rightarrow> ((False, ExnText e), w4)
                        | (Inr _, w4) \<Rightarrow>
                            ((True, RolledBack v next_version),
                             print_line (RollbackComplete v) w4)))))"

subsection \<open>Ingestion\<close>

text \<open>
  \<^verbatim>\<open>read_config\<close> opens and parses the file; \<open>LoadRaises\<close> stands for any exception
  of \<^verbatim>\<open>open\<close> or \<^verbatim>\<open>yaml.safe_load\<close>, \<open>Loads data\<close> for a parse yielding
  \<open>data\<close>.
\<close>

datatype load_result = LoadRaises | Loads yaml

fun is_dict :: "yaml \<Rightarrow> bool" where
  "is_dict (YDict _) = True"
| "is_dict _ = False"

text \<open>Python truth value, for \<^verbatim>\<open>if data:\<close>.\<close>

fun truthy :: "yaml \<Rightarrow> bool" where
  "truthy YNone = False"
| "truthy (YBool b) = b"
| "truthy (YInt n) = (n \<noteq> 0)"
| "truthy (YStr s) = (s \<noteq> [])"
| "truthy (YList xs) = (xs \<noteq> [])"
| "truthy (YDict items) = (items \<noteq> [])"

definition read_config :: "load_result \<Rightarrow> world \<Rightarrow> yaml option \<times> world" where
  "read_config load w =
     (case load of
        LoadRaises \<Rightarrow> (None, print_line ErrReadingYaml w)
      | Loads data \<Rightarrow>
          if \<not> is_dict data then (None, print_line ErrTopLevel w)
          else (Some data, w))"

text \<open>
  \<^verbatim>\<open>ConfigFileHandler.on_modified\<close>. \<open>abspath\<close> is \<^verbatim>\<open>os.path.abspath\<close> and
  \<open>cfg\<close> the constant \<^verbatim>\<open>CONFIG_FILE\<close>. The first component of the result is the
  exception that leaves the handler, if any: \<^verbatim>\<open>convert_numeric_values\<close> is called
  outside every \<^verbatim>\<open>try\<close>.
\<close>

definition on_modified ::
  "server \<Rightarrow> (string \<Rightarrow> string) \<Rightarrow> string \<Rightarrow> nat \<Rightarrow> load_result \<Rightarrow> string \<Rightarrow> world
     \<Rightarrow> exn option \<times> world" where
  "on_modified srv abspath cfg now load src_path w =
     (if abspath src_path = abspath cfg
      then (case read_config load (print_line DetectedChanges w) of
              (None, w1) \<Rightarrow> (None, w1)
            | (Some data, w1) \<Rightarrow>
                if truthy data
                then (case convert_numeric_values data of
                        Inl e \<Rightarrow> (Some e, w1)
                      | Inr data' \<Rightarrow> (None, snd (save_to_mongo srv now data' w1)))
                else (None, w1))
      else (None, w))"

subsection \<open>The allocation rule in the words of the specification\<close>

definition spec_next_version :: "version_record list \<Rightarrow> int" where
  "spec_next_version docs = (if docs = [] then 1 else Max (version ` set docs) + 1)"

section \<open>Normalisation is idempotent\<close>


text \<open>
  Numeric strings of a mapping and of the mappings nested in it become integers; a
  list is passed over, with the strings and mappings inside it. A superscript digit
  passes \<^verbatim>\<open>isdigit\<close> and makes \<^verbatim>\<open>int\<close> raise.
\<close>

lemma convert_example:
  "convert_numeric_values
     (YDict [(''port'', YStr ''0080''),
             (''db'', YDict [(''retries'', YStr ''3''), (''host'', YStr ''h1'')]),
             (''ids'', YList [YStr ''5''])])
   = Inr (YDict [(''port'', YInt 80),
                 (''db'', YDict [(''retries'', YInt 3), (''host'', YStr ''h1'')]),
                 (''ids'', YList [YStr ''5''])])"
  by (simp add: isdigit_def py_int_def is_decimal_def is_superscript_def digit_value_def)

lemma convert_superscript_raises:
  "convert_numeric_values (YDict [(''area'', YStr [CHR 0xB2])]) = Inl ValueError"
  by (simp add: isdigit_def py_int_def is_decimal_def is_superscript_def)


section \<open>The store operations while the backend answers\<close>

lemma mongo_call_up: "up w \<Longrightarrow> mongo_call w = (True, w\<lparr>backend := tl (backend w)\<rparr>)"
  by (cases "backend w") (auto simp: mongo_call_def up_def)

lemma up_tl: "up w \<Longrightarrow> up (w\<lparr>backend := tl (backend w)\<rparr>)"
  by (cases "backend w") (auto simp: up_def)

lemma greatest_version_None: "greatest_version docs = None \<longleftrightarrow> docs = []"
  by (cases docs) (auto split: option.splits)

lemma greatest_version_Some:
  "greatest_version docs = Some m \<Longrightarrow> m \<in> set docs \<and> (\<forall>r\<in>set docs. version r \<le> version m)"
proof (induction docs arbitrary: m)
  case Nil
  then show ?case by simp
next
  case (Cons r rs)
  show ?case
  proof (cases "greatest_version rs")
    case None
    with Cons.prems show ?thesis by (simp add: greatest_version_None)
  next
    case (Some m')
    from Cons.IH[OF Some] Cons.prems Some show ?thesis
      by (auto split: if_splits)
  qed
qed

lemma greatest_version_Max:
  assumes "greatest_version docs = Some m"
  shows "version m = Max (version ` set docs)"
proof -
  from greatest_version_Some[OF assms]
  have a: "m \<in> set docs" and b: "\<forall>r\<in>set docs. version r \<le> version m" by auto
  show ?thesis
  proof (rule sym, rule Max_eqI)
    show "finite (version ` set docs)" by simp
    show "\<And>y. y \<in> version ` set docs \<Longrightarrow> y \<le> version m" using b by auto
    show "version m \<in> version ` set docs" using a by auto
  qed
qed

lemma next_version_spec:
  "(case greatest_version docs of None \<Rightarrow> 1 | Some l \<Rightarrow> version l + 1) = spec_next_version docs"
proof (cases "greatest_version docs")
  case None
  then show ?thesis by (simp add: greatest_version_None spec_next_version_def)
next
  case (Some m)
  then have "docs \<noteq> []" by auto
  with Some greatest_version_Max[OF Some] show ?thesis by (simp add: spec_next_version_def)
qed

lemma tl3: "tl (tl (tl xs)) = drop 3 xs"
  by (simp add: numeral_3_eq_3 drop_Suc)

lemma config_filter_plain:
  "plain_mapping d \<Longrightarrow> config_filter srv d = Some (\<lambda>r. config r = d)"
  by (simp add: config_filter_def)

lemma save_new:
  assumes "up w" and "config_filter srv d = Some p" and "find p (collection w) = None"
  shows "save_to_mongo srv now d w =
    (None, w\<lparr>collection := collection w @
                  [\<lparr>version = spec_next_version (collection w), timestamp = now, config = d,
                    rolled_back_from = None\<rparr>],
              backend := drop 3 (backend w),
              console := console w @ [Saved (spec_next_version (collection w))]\<rparr>)"
proof -
  let ?w1 = "w\<lparr>backend := tl (backend w)\<rparr>"
  let ?w2 = "?w1\<lparr>backend := tl (backend ?w1)\<rparr>"
  have u1: "up ?w1" using assms(1) by (rule up_tl)
  have u2: "up ?w2" using u1 by (rule up_tl)
  have c1: "find_one_config srv d w = (Inr None, ?w1)"
    using assms by (simp add: find_one_config_def mongo_call_up)
  have c2: "find_one_latest ?w1 = (Inr (greatest_version (collection w)), ?w2)"
    using u1 by (simp add: find_one_latest_def mongo_call_up)
  have c3: "\<And>doc. insert_one doc ?w2 =
      (Inr (), ?w2\<lparr>backend := tl (backend ?w2), collection := collection w @ [doc]\<rparr>)"
    using u2 by (simp add: insert_one_def mongo_call_up)
  show ?thesis
    unfolding save_to_mongo_def c1
    apply (simp only: prod.case sum.case option.case c2 Let_def c3 next_version_spec)
    apply (simp add: print_line_def tl3)
    done
qed

lemma find_SomeD: "find P xs = Some x \<Longrightarrow> x \<in> set xs \<and> P x"
  by (induction xs) (auto split: if_splits)

lemma find_exists: "\<exists>x\<in>set xs. P x \<Longrightarrow> \<exists>y. find P xs = Some y"
  by (cases "find P xs") (auto simp: find_None_iff)

lemma save_dedup:
  assumes "up w" and "config_filter srv d = Some p" and "find p (collection w) = Some r"
  shows "save_to_mongo srv now d w =
    (None, w\<lparr>backend := tl (backend w),
              console := console w @ [AlreadyExists (version r)]\<rparr>)"
  using assms
  by (simp add: save_to_mongo_def find_one_config_def mongo_call_up print_line_def)

lemma save_rejected:
  assumes "up w" and "config_filter srv d = None"
  shows "save_to_mongo srv now d w =
    (None, w\<lparr>backend := tl (backend w),
              console := console w @ [ErrorSaving MongoError]\<rparr>)"
  using assms
  by (simp add: save_to_mongo_def find_one_config_def mongo_call_up print_line_def)


lemma rollback_found:
  assumes "up w" and "find (\<lambda>r. version r = v) (collection w) = Some doc"
  shows "rollback_to_version now file_ok v w =
    (if file_ok
     then ((True, RolledBack v (spec_next_version (collection w))),
           w\<lparr>collection := collection w @
                  [\<lparr>version = spec_next_version (collection w), timestamp = now,
                    config = config doc, rolled_back_from = Some v\<rparr>],
              backend := drop 3 (backend w),
              config_file := config_file w @ [Dumped (config doc)],
              console := console w @ [RollbackComplete v]\<rparr>)
     else ((False, ExnText IOError),
           w\<lparr>collection := collection w @
                  [\<lparr>version = spec_next_version (collection w), timestamp = now,
                    config = config doc, rolled_back_from = Some v\<rparr>],
              backend := drop 3 (backend w),
              config_file := config_file w @ [DumpFailed]\<rparr>))"
proof -
  let ?w1 = "w\<lparr>backend := tl (backend w)\<rparr>"
  let ?w2 = "?w1\<lparr>backend := tl (backend ?w1)\<rparr>"
  have u1: "up ?w1" using assms(1) by (rule up_tl)
  have u2: "up ?w2" using u1 by (rule up_tl)
  have c1: "find_one_version v w = (Inr (Some doc), ?w1)"
    using assms by (simp add: find_one_version_def mongo_call_up)
  have c2: "find_one_latest ?w1 = (Inr (greatest_version (collection w)), ?w2)"
    using u1 by (simp add: find_one_latest_def mongo_call_up)
  have c3: "\<And>doc. insert_one doc ?w2 =
      (Inr (), ?w2\<lparr>backend := tl (backend ?w2), collection := collection w @ [doc]\<rparr>)"
    using u2 by (simp add: insert_one_def mongo_call_up)
  show ?thesis
    unfolding rollback_to_version_def c1
    apply (simp only: prod.case sum.case option.case c2 Let_def c3 next_version_spec)
    apply (simp add: print_line_def tl3 dump_config_def)
    done
qed

lemma rollback_missing:
  assumes "find (\<lambda>r. version r = v) (collection w) = None"
  shows "rollback_to_version now file_ok v w =
    ((False, if fst (mongo_call w) then NotFound v else ExnText MongoError),
     w\<lparr>backend := tl (backend w)\<rparr>)"
  using assms
  by (simp add: rollback_to_version_def find_one_version_def mongo_call_def)

lemma spec_next_version_gt: "r \<in> set docs \<Longrightarrow> version r < spec_next_version docs"
proof -
  assume a: "r \<in> set docs"
  then have "docs \<noteq> []" by auto
  moreover have "version r \<le> Max (version ` set docs)" using a by simp
  ultimately show ?thesis by (simp add: spec_next_version_def)
qed

lemma spec_next_version_snoc:
  assumes "version r = spec_next_version docs"
  shows "spec_next_version (docs @ [r]) = spec_next_version docs + 1"
proof (cases "docs = []")
  case True
  with assms show ?thesis by (simp add: spec_next_version_def)
next
  case False
  have "Max (version ` set (docs @ [r])) = version r"
  proof (rule Max_eqI)
    show "finite (version ` set (docs @ [r]))" by simp
    show "version r \<in> version ` set (docs @ [r])" by simp
    fix y assume "y \<in> version ` set (docs @ [r])"
    then consider "y = version r" | x where "x \<in> set docs" "y = version x" by auto
    then show "y \<le> version r"
    proof cases
      case 1 then show ?thesis by simp
    next
      case 2
      with spec_next_version_gt[of x docs] assms show ?thesis by simp
    qed
  qed
  with assms show ?thesis by (simp add: spec_next_version_def)
qed

lemma save_all_new:
  assumes "up w" and "distinct (map snd jobs)"
    and "\<forall>j\<in>set jobs. plain_mapping (snd j)"
    and "\<forall>j\<in>set jobs. snd j \<notin> config ` set (collection w)"
  shows "map version (collection (save_all srv jobs w)) =
           map version (collection w) @
           [spec_next_version (collection w) ..
              spec_next_version (collection w) + int (length jobs) - 1]
         \<and> map config (collection (save_all srv jobs w)) =
           map config (collection w) @ map snd jobs"
  using assms
proof (induction jobs arbitrary: w)
  case Nil
  then show ?case by simp
next
  case (Cons j jobs)
  obtain now d where j: "j = (now, d)" by (cases j)
  let ?n = "spec_next_version (collection w)"
  let ?r = "\<lparr>version = ?n, timestamp = now, config = d, rolled_back_from = None\<rparr>"
  let ?w' = "w\<lparr>collection := collection w @ [?r], backend := drop 3 (backend w),
               console := console w @ [Saved ?n]\<rparr>"
  from Cons.prems(3) j have pl: "plain_mapping d" by simp
  from Cons.prems(4) j have "find (\<lambda>r. config r = d) (collection w) = None"
    by (auto simp: find_None_iff)
  from save_new[OF Cons.prems(1) config_filter_plain[OF pl] this]
  have s: "save_to_mongo srv now d w = (None, ?w')" .
  have u: "up ?w'" using Cons.prems(1) by (auto simp: up_def dest: in_set_dropD)
  have d': "distinct (map snd jobs)" using Cons.prems(2) by simp
  have p': "\<forall>j\<in>set jobs. plain_mapping (snd j)" using Cons.prems(3) by simp
  have n': "\<forall>j\<in>set jobs. snd j \<notin> config ` set (collection ?w')"
    using Cons.prems(2,4) j by auto
  have nx: "spec_next_version (collection ?w') = ?n + 1"
    using spec_next_version_snoc[of ?r "collection w"] by simp
  have ut: "[?n .. ?n + int (length (j # jobs)) - 1]
              = ?n # [?n + 1 .. ?n + 1 + int (length jobs) - 1]"
    by (subst upto_rec1) (simp_all add: add.commute add.left_commute)
  have sa: "save_all srv (j # jobs) w = save_all srv jobs ?w'" by (simp add: j s)
  have ms: "map snd (j # jobs) = d # map snd jobs" by (simp add: j)
  from Cons.IH[OF u d' p' n']
  have ih: "map version (collection (save_all srv jobs ?w')) =
              map version (collection ?w') @ [?n + 1 .. ?n + 1 + int (length jobs) - 1]
            \<and> map config (collection (save_all srv jobs ?w')) =
              map config (collection ?w') @ map snd jobs"
    unfolding nx .
  show ?case unfolding sa ut ms using ih by simp
qed

section \<open>Version numbers\<close>

lemma save_all_versions:
  assumes "up w"
  shows "\<exists>k \<le> length jobs.
           map version (collection (save_all srv jobs w)) =
             map version (collection w) @
             [spec_next_version (collection w) ..
                spec_next_version (collection w) + int k - 1]"
  using assms
proof (induction jobs arbitrary: w)
  case Nil
  then show ?case by simp
next
  case (Cons j jobs)
  obtain now d where j: "j = (now, d)" by (cases j)
  let ?n = "spec_next_version (collection w)"
  show ?case
  proof (cases "config_filter srv d")
    case None
    let ?w' = "w\<lparr>backend := tl (backend w),
                 console := console w @ [ErrorSaving MongoError]\<rparr>"
    have sa: "save_all srv (j # jobs) w = save_all srv jobs ?w'"
      by (simp add: j save_rejected[OF Cons.prems None])
    have u: "up ?w'" using up_tl[OF Cons.prems] by (simp add: up_def)
    from Cons.IH[OF u] obtain k where k: "k \<le> length jobs"
      and e: "map version (collection (save_all srv jobs ?w')) =
                map version (collection w) @ [?n .. ?n + int k - 1]"
      by auto
    have "k \<le> length (j # jobs)" using k by simp
    with e show ?thesis unfolding sa by blast
  next
    case (Some p)
    show ?thesis
    proof (cases "find p (collection w)")
      case None
      let ?r = "\<lparr>version = ?n, timestamp = now, config = d, rolled_back_from = None\<rparr>"
      let ?w' = "w\<lparr>collection := collection w @ [?r], backend := drop 3 (backend w),
                   console := console w @ [Saved ?n]\<rparr>"
      have sa: "save_all srv (j # jobs) w = save_all srv jobs ?w'"
        by (simp add: j save_new[OF Cons.prems Some None])
      have u: "up ?w'" using Cons.prems by (auto simp: up_def dest: in_set_dropD)
      have nx: "spec_next_version (collection ?w') = ?n + 1"
        using spec_next_version_snoc[of ?r "collection w"] by simp
      from Cons.IH[OF u] obtain k where k: "k \<le> length jobs"
        and e: "map version (collection (save_all srv jobs ?w')) =
                  map version (collection ?w') @ [?n + 1 .. ?n + 1 + int k - 1]"
        unfolding nx by blast
      have ut: "[?n .. ?n + int (Suc k) - 1] = ?n # [?n + 1 .. ?n + 1 + int k - 1]"
        by (subst upto_rec1) (simp_all add: add.commute add.left_commute)
      have "map version (collection (save_all srv (j # jobs) w)) =
              map version (collection w) @ [?n .. ?n + int (Suc k) - 1]"
        unfolding sa ut using e by simp
      moreover have "Suc k \<le> length (j # jobs)" using k by simp
      ultimately show ?thesis by blast
    next
      case (Some r)
      let ?w' = "w\<lparr>backend := tl (backend w),
                   console := console w @ [AlreadyExists (version r)]\<rparr>"
      have sa: "save_all srv (j # jobs) w = save_all srv jobs ?w'"
        by (simp add: j save_dedup[OF Cons.prems \<open>config_filter srv d = Some p\<close> Some])
      have u: "up ?w'" using up_tl[OF Cons.prems] by (simp add: up_def)
      from Cons.IH[OF u] obtain k where k: "k \<le> length jobs"
        and e: "map version (collection (save_all srv jobs ?w')) =
                  map version (collection w) @ [?n .. ?n + int k - 1]"
        by auto
      have "k \<le> length (j # jobs)" using k by simp
      with e show ?thesis unfolding sa by blast
    qed
  qed
qed

text \<open>
  C1. While the backend answers, a save whose lookup finds no record (for a
  mapping read literally: no record with the same document) appends one record
  whose version is the greatest stored version plus one (1 in an empty collection),
  and so does every rollback of a stored version; that number is above every stored
  version. A run of saves appends consecutive versions, one for each record it
  creates; when the documents are pairwise distinct mappings read literally and
  none is stored yet, every save creates a record, so the versions go up by exactly
  one from save to save.
\<close>

theorem version_numbers_sequential:
  assumes "up w"
  shows "(config_filter srv d = Some p \<and> find p (collection w) = None \<longrightarrow>
            collection (snd (save_to_mongo srv now d w)) =
              collection w @
              [\<lparr>version = spec_next_version (collection w), timestamp = now, config = d,
                rolled_back_from = None\<rparr>])
       \<and> (plain_mapping d \<and> find (\<lambda>r. config r = d) (collection w) = None \<longrightarrow>
            collection (snd (save_to_mongo srv now d w)) =
              collection w @
              [\<lparr>version = spec_next_version (collection w), timestamp = now, config = d,
                rolled_back_from = None\<rparr>])
       \<and> (find (\<lambda>r. version r = v) (collection w) = Some doc \<longrightarrow>
            collection (snd (rollback_to_version now file_ok v w)) =
              collection w @
              [\<lparr>version = spec_next_version (collection w), timestamp = now,
                config = config doc, rolled_back_from = Some v\<rparr>])
       \<and> (\<forall>r\<in>set (collection w). version r < spec_next_version (collection w))
       \<and> (\<exists>k \<le> length jobs.
            map version (collection (save_all srv jobs w)) =
              map version (collection w) @
              [spec_next_version (collection w) ..
                 spec_next_version (collection w) + int k - 1])
       \<and> (distinct (map snd jobs) \<and> (\<forall>j\<in>set jobs. plain_mapping (snd j))
            \<and> (\<forall>j\<in>set jobs. snd j \<notin> config ` set (collection w)) \<longrightarrow>
            map version (collection (save_all srv jobs w)) =
              map version (collection w) @
              [spec_next_version (collection w) ..
                 spec_next_version (collection w) + int (length jobs) - 1]
            \<and> map config (collection (save_all srv jobs w)) =
              map config (collection w) @ map snd jobs)"
proof (intro conjI impI)
  assume a: "config_filter srv d = Some p \<and> find p (collection w) = None"
  from a have f: "config_filter srv d = Some p" and n: "find p (collection w) = None"
    by blast+
  from save_new[OF assms f n, of now]
  show "collection (snd (save_to_mongo srv now d w)) =
              collection w @
              [\<lparr>version = spec_next_version (collection w), timestamp = now, config = d,
                rolled_back_from = None\<rparr>]" by simp
next
  assume a: "plain_mapping d \<and> find (\<lambda>r. config r = d) (collection w) = None"
  from a have f: "config_filter srv d = Some (\<lambda>r. config r = d)"
    by (simp add: config_filter_plain)
  from a have n: "find (\<lambda>r. config r = d) (collection w) = None" by blast
  from save_new[OF assms f n, of now]
  show "collection (snd (save_to_mongo srv now d w)) =
              collection w @
              [\<lparr>version = spec_next_version (collection w), timestamp = now, config = d,
                rolled_back_from = None\<rparr>]" by simp
next
  assume "find (\<lambda>r. version r = v) (collection w) = Some doc"
  from rollback_found[OF assms this, of now file_ok]
  show "collection (snd (rollback_to_version now file_ok v w)) =
              collection w @
              [\<lparr>version = spec_next_version (collection w), timestamp = now,
                config = config doc, rolled_back_from = Some v\<rparr>]" by (cases file_ok) simp_all
next
  show "\<forall>r\<in>set (collection w). version r < spec_next_version (collection w)"
    by (simp add: spec_next_version_gt)
next
  show "\<exists>k \<le> length jobs.
            map version (collection (save_all srv jobs w)) =
              map version (collection w) @
              [spec_next_version (collection w) ..
                 spec_next_version (collection w) + int k - 1]"
    by (rule save_all_versions[OF assms])
next
  assume a: "distinct (map snd jobs) \<and> (\<forall>j\<in>set jobs. plain_mapping (snd j))
            \<and> (\<forall>j\<in>set jobs. snd j \<notin> config ` set (collection w))"
  from a have a1: "distinct (map snd jobs)" and a2: "\<forall>j\<in>set jobs. plain_mapping (snd j)"
    and a3: "\<forall>j\<in>set jobs. snd j \<notin> config ` set (collection w)" by blast+
  from save_all_new[OF assms a1 a2 a3, of srv]
  show "map version (collection (save_all srv jobs w)) =
              map version (collection w) @
              [spec_next_version (collection w) ..
                 spec_next_version (collection w) + int (length jobs) - 1]" by blast
  from save_all_new[OF assms a1 a2 a3, of srv]
  show "map config (collection (save_all srv jobs w)) =
              map config (collection w) @ map snd jobs" by blast
qed

theorem version_numbers_sequential_witness:
  "up \<lparr>collection = [\<lparr>version = 1, timestamp = 3, config = YDict [(''a'', YInt 1)],
                        rolled_back_from = None\<rparr>],
        backend = [], config_file = [], console = []\<rparr>
   \<and> collection (snd (save_to_mongo no_operators 5 (YDict [(''a'', YInt 2)])
        \<lparr>collection = [\<lparr>version = 1, timestamp = 3, config = YDict [(''a'', YInt 1)],
                         rolled_back_from = None\<rparr>],
         backend = [], config_file = [], console = []\<rparr>))
     = [\<lparr>version = 1, timestamp = 3, config = YDict [(''a'', YInt 1)],
         rolled_back_from = None\<rparr>,
        \<lparr>version = 2, timestamp = 5, config = YDict [(''a'', YInt 2)],
         rolled_back_from = None\<rparr>]
   \<and> collection (snd (rollback_to_version 5 True 1
        \<lparr>collection = [\<lparr>version = 1, timestamp = 3, config = YDict [(''a'', YInt 1)],
                         rolled_back_from = None\<rparr>],
         backend = [], config_file = [], console = []\<rparr>))
     = [\<lparr>version = 1, timestamp = 3, config = YDict [(''a'', YInt 1)],
         rolled_back_from = None\<rparr>,
        \<lparr>version = 2, timestamp = 5, config = YDict [(''a'', YInt 1)],
         rolled_back_from = Some 1\<rparr>]
   \<and> map version (collection (save_all no_operators
          [(5, YDict [(''a'', YInt 2)]), (6, YDict [(''a'', YInt 3)])]
        \<lparr>collection = [\<lparr>version = 1, timestamp = 3, config = YDict [(''a'', YInt 1)],
                         rolled_back_from = None\<rparr>],
         backend = [], config_file = [], console = []\<rparr>))
     = [1, 2, 3]"
proof -
  let ?r = "\<lparr>version = 1, timestamp = 3, config = YDict [(''a'', YInt 1)],
             rolled_back_from = None\<rparr>"
  let ?w = "\<lparr>collection = [?r], backend = [], config_file = [], console = []\<rparr>"
  have u: "up ?w" by (simp add: up_def)
  have n: "spec_next_version [?r] = 2" by (simp add: spec_next_version_def)
  have f: "config_filter no_operators (YDict [(''a'', YInt 2)])
             = Some (\<lambda>r. config r = YDict [(''a'', YInt 2)])"
    by (simp add: config_filter_def)
  note t = version_numbers_sequential[OF u, where srv = no_operators
      and d = "YDict [(''a'', YInt 2)]" and p = "\<lambda>r. config r = YDict [(''a'', YInt 2)]"
      and now = 5 and v = 1 and doc = "?r" and file_ok = True
      and jobs = "[(5, YDict [(''a'', YInt 2)]), (6, YDict [(''a'', YInt 3)])]"]
  from t f have a: "collection (snd (save_to_mongo no_operators 5 (YDict [(''a'', YInt 2)]) ?w)) =
      [?r, \<lparr>version = 2, timestamp = 5, config = YDict [(''a'', YInt 2)],
            rolled_back_from = None\<rparr>]"
    by (simp add: n)
  from t have b: "collection (snd (rollback_to_version 5 True 1 ?w)) =
      [?r, \<lparr>version = 2, timestamp = 5, config = YDict [(''a'', YInt 1)],
            rolled_back_from = Some 1\<rparr>]"
    by (simp add: n)
  from t have c: "map version (collection (save_all no_operators
          [(5, YDict [(''a'', YInt 2)]), (6, YDict [(''a'', YInt 3)])] ?w)) = [1, 2, 3]"
    by (simp add: n upto_rec1)
  from u a b c show ?thesis by blast
qed

section \<open>Deduplication\<close>


text \<open>
  The lookup follows the server's reading of the filter. With a server that reads
  \<^verbatim>\<open>{"$ne": 1}\<close> as "other than 1", saving that mapping finds version 1, whose
  config is a different document, and creates nothing.
\<close>

lemma operator_document_lookup:
  "save_to_mongo
     (\<lambda>q. if q = YDict [(''$ne'', YInt 1)] then Some (\<lambda>c. c \<noteq> YInt 1) else None)
     9 (YDict [(''$ne'', YInt 1)])
     \<lparr>collection = [\<lparr>version = 1, timestamp = 3, config = YDict [(''a'', YInt 1)],
                      rolled_back_from = None\<rparr>],
      backend = [], config_file = [], console = []\<rparr>
   = (None,
      \<lparr>collection = [\<lparr>version = 1, timestamp = 3, config = YDict [(''a'', YInt 1)],
                       rolled_back_from = None\<rparr>],
       backend = [], config_file = [], console = [AlreadyExists 1]\<rparr>)"
  by (simp add: save_to_mongo_def find_one_config_def config_filter_def mongo_call_def
      print_line_def)




section \<open>Rollback\<close>

text \<open>
  C3. While the backend answers, a rollback to a stored version \<open>v\<close> appends exactly
  one record, whether or not the file write succeeds and whatever the latest record
  holds (there is no dedup lookup on this path): its config is that of the record
  with version \<open>v\<close>, its \<^verbatim>\<open>rolled_back_from\<close> is \<open>v\<close>, and its version follows the
  allocation rule of save. In the example below the target is itself the latest
  record.
\<close>

theorem rollback_creates_version:
  assumes "up w" and "v \<in> version ` set (collection w)"
  shows "\<exists>doc\<in>set (collection w). version doc = v \<and>
           find (\<lambda>r. version r = v) (collection w) = Some doc \<and>
           collection (snd (rollback_to_version now file_ok v w)) =
             collection w @
             [\<lparr>version = spec_next_version (collection w), timestamp = now,
               config = config doc, rolled_back_from = Some v\<rparr>]"
proof -
  from assms(2) have "\<exists>r\<in>set (collection w). version r = v" by auto
  from find_exists[of "collection w" "\<lambda>r. version r = v", OF this]
  obtain doc where f: "find (\<lambda>r. version r = v) (collection w) = Some doc" by blast
  from rollback_found[OF assms(1) f, of now file_ok]
  have "collection (snd (rollback_to_version now file_ok v w)) =
             collection w @
             [\<lparr>version = spec_next_version (collection w), timestamp = now,
               config = config doc, rolled_back_from = Some v\<rparr>]"
    by (cases file_ok) simp_all
  with find_SomeD[OF f] f show ?thesis by blast
qed

theorem rollback_creates_version_witness:
  "up \<lparr>collection = [\<lparr>version = 1, timestamp = 3, config = YDict [(''a'', YInt 1)],
                        rolled_back_from = None\<rparr>],
        backend = [], config_file = [], console = []\<rparr>
   \<and> collection (snd (rollback_to_version 7 True 1
        \<lparr>collection = [\<lparr>version = 1, timestamp = 3, config = YDict [(''a'', YInt 1)],
                         rolled_back_from = None\<rparr>],
         backend = [], config_file = [], console = []\<rparr>))
     = [\<lparr>version = 1, timestamp = 3, config = YDict [(''a'', YInt 1)],
         rolled_back_from = None\<rparr>,
        \<lparr>version = 2, timestamp = 7, config = YDict [(''a'', YInt 1)],
         rolled_back_from = Some 1\<rparr>]"
proof -
  let ?r = "\<lparr>version = 1, timestamp = 3, config = YDict [(''a'', YInt 1)],
             rolled_back_from = None\<rparr>"
  let ?w = "\<lparr>collection = [?r], backend = [], config_file = [], console = []\<rparr>"
  have u: "up ?w" by (simp add: up_def)
  have m: "1 \<in> version ` set (collection ?w)" by simp
  have n: "spec_next_version [?r] = 2" by (simp add: spec_next_version_def)
  from rollback_creates_version[OF u m, of 7 True]
  have "collection (snd (rollback_to_version 7 True 1 ?w)) =
          [?r, \<lparr>version = 2, timestamp = 7, config = YDict [(''a'', YInt 1)],
                rolled_back_from = Some 1\<rparr>]"
    by (simp add: n)
  with u show ?thesis by blast
qed

text \<open>
  C4. A rollback to a version that no record carries returns \<^verbatim>\<open>False\<close> and leaves the
  collection, the configuration file and the console as they were; the message is
  \<^verbatim>\<open>Version v not found.\<close> when the lookup is answered, and the text of the
  exception when the lookup itself raises.
\<close>

theorem rollback_unknown_version:
  assumes "v \<notin> version ` set (collection w)"
  shows "fst (fst (rollback_to_version now file_ok v w)) = False
       \<and> collection (snd (rollback_to_version now file_ok v w)) = collection w
       \<and> config_file (snd (rollback_to_version now file_ok v w)) = config_file w
       \<and> console (snd (rollback_to_version now file_ok v w)) = console w
       \<and> snd (fst (rollback_to_version now file_ok v w)) =
           (if fst (mongo_call w) then NotFound v else ExnText MongoError)"
proof -
  from assms have "find (\<lambda>r. version r = v) (collection w) = None"
    by (auto simp: find_None_iff)
  from rollback_missing[OF this, of now file_ok] show ?thesis by simp
qed

theorem rollback_unknown_version_witness:
  "99 \<notin> version ` set [\<lparr>version = 1, timestamp = 3, config = YDict [(''a'', YInt 1)],
                            rolled_back_from = None\<rparr>]
   \<and> rollback_to_version 7 True 99
        \<lparr>collection = [\<lparr>version = 1, timestamp = 3, config = YDict [(''a'', YInt 1)],
                         rolled_back_from = None\<rparr>],
         backend = [], config_file = [], console = []\<rparr>
     = ((False, NotFound 99),
        \<lparr>collection = [\<lparr>version = 1, timestamp = 3, config = YDict [(''a'', YInt 1)],
                         rolled_back_from = None\<rparr>],
         backend = [], config_file = [], console = []\<rparr>)"
proof -
  let ?r = "\<lparr>version = 1, timestamp = 3, config = YDict [(''a'', YInt 1)],
             rolled_back_from = None\<rparr>"
  let ?w = "\<lparr>collection = [?r], backend = [], config_file = [], console = []\<rparr>"
  have m: "99 \<notin> version ` set (collection ?w)" by simp
  have b: "backend (snd (rollback_to_version 7 True 99 ?w)) = []"
    by (simp add: rollback_to_version_def find_one_version_def mongo_call_def)
  from rollback_unknown_version[OF m, of 7 True]
  have "fst (rollback_to_version 7 True 99 ?w) = (False, NotFound 99)"
    and "collection (snd (rollback_to_version 7 True 99 ?w)) = [?r]"
    and "config_file (snd (rollback_to_version 7 True 99 ?w)) = []"
    and "console (snd (rollback_to_version 7 True 99 ?w)) = []"
    by (simp_all add: mongo_call_def prod_eq_iff)
  with b have "rollback_to_version 7 True 99 ?w = ((False, NotFound 99), ?w)"
    by (simp add: prod_eq_iff)
  with m show ?thesis by simp
qed

text \<open>
  C5. When the file write of a rollback to a stored version raises, the new record
  has been inserted and stays in the collection, and the call returns \<^verbatim>\<open>False\<close> with
  the text of the exception.
\<close>

theorem rollback_write_failure:
  assumes "up w" and "v \<in> version ` set (collection w)"
  shows "\<exists>doc\<in>set (collection w). version doc = v \<and>
           rollback_to_version now False v w =
             ((False, ExnText IOError),
              w\<lparr>collection := collection w @
                    [\<lparr>version = spec_next_version (collection w), timestamp = now,
                      config = config doc, rolled_back_from = Some v\<rparr>],
                backend := drop 3 (backend w),
                config_file := config_file w @ [DumpFailed]\<rparr>)"
proof -
  from assms(2) have "\<exists>r\<in>set (collection w). version r = v" by auto
  from find_exists[of "collection w" "\<lambda>r. version r = v", OF this]
  obtain doc where f: "find (\<lambda>r. version r = v) (collection w) = Some doc" by blast
  from rollback_found[OF assms(1) f, of now False] find_SomeD[OF f]
  show ?thesis by auto
qed

theorem rollback_write_failure_witness:
  "up \<lparr>collection = [\<lparr>version = 1, timestamp = 3, config = YDict [(''a'', YInt 1)],
                        rolled_back_from = None\<rparr>],
        backend = [], config_file = [], console = []\<rparr>
   \<and> rollback_to_version 7 False 1
        \<lparr>collection = [\<lparr>version = 1, timestamp = 3, config = YDict [(''a'', YInt 1)],
                         rolled_back_from = None\<rparr>],
         backend = [], config_file = [], console = []\<rparr>
     = ((False, ExnText IOError),
        \<lparr>collection = [\<lparr>version = 1, timestamp = 3, config = YDict [(''a'', YInt 1)],
                         rolled_back_from = None\<rparr>,
                       \<lparr>version = 2, timestamp = 7, config = YDict [(''a'', YInt 1)],
                         rolled_back_from = Some 1\<rparr>],
         backend = [], config_file = [DumpFailed], console = []\<rparr>)"
proof -
  let ?r = "\<lparr>version = 1, timestamp = 3, config = YDict [(''a'', YInt 1)],
             rolled_back_from = None\<rparr>"
  let ?w = "\<lparr>collection = [?r], backend = [], config_file = [], console = []\<rparr>"
  have u: "up ?w" by (simp add: up_def)
  have m: "1 \<in> version ` set (collection ?w)" by simp
  have n: "spec_next_version [?r] = 2" by (simp add: spec_next_version_def)
  from rollback_write_failure[OF u m, of 7]
  have "rollback_to_version 7 False 1 ?w =
          ((False, ExnText IOError),
           ?w\<lparr>collection := [?r, \<lparr>version = 2, timestamp = 7,
                  config = YDict [(''a'', YInt 1)], rolled_back_from = Some 1\<rparr>],
              config_file := [DumpFailed]\<rparr>)"
    by (simp add: n)
  with u show ?thesis by simp
qed

section \<open>Storage failures\<close>





section \<open>fetch_latest_from_mongo\<close>

text \<open>The record returned is one of greatest version; the empty object stands for an empty collection.\<close>

lemma fetch_latest_greatest:
  assumes "up w"
  shows "fetch_latest_from_mongo w =
    ((case greatest_version (collection w) of
        None \<Rightarrow> []
      | Some latest_doc \<Rightarrow>
          [(''version'', PInt (version latest_doc)),
           (''timestamp'', PIsoformat (timestamp latest_doc)),
           (''config'', PConfig (config latest_doc))]),
     w\<lparr>backend := tl (backend w)\<rparr>)"
  using assms
  by (simp add: fetch_latest_from_mongo_def find_one_latest_def mongo_call_up
      split: option.splits)

text \<open>
  C8. After saving \<^verbatim>\<open>{a: 1}\<close> and rolling back to version 1, the latest record is
  version 2 with \<^verbatim>\<open>rolled_back_from = 1\<close>. \<^verbatim>\<open>fetch_latest_from_mongo\<close> returns that
  record's version, timestamp and config and no \<^verbatim>\<open>rolled_back_from\<close> key, while
  \<^verbatim>\<open>fetch_all_versions\<close> returns the key for the same record.
\<close>

theorem fetch_latest_omits_rolled_back_from:
  "collection (snd (rollback_to_version 8 True 1
      (snd (save_to_mongo no_operators 3 (YDict [(''a'', YInt 1)])
         \<lparr>collection = [], backend = [], config_file = [], console = []\<rparr>))))
   = [\<lparr>version = 1, timestamp = 3, config = YDict [(''a'', YInt 1)],
       rolled_back_from = None\<rparr>,
      \<lparr>version = 2, timestamp = 8, config = YDict [(''a'', YInt 1)],
       rolled_back_from = Some 1\<rparr>]
   \<and> fst (fetch_latest_from_mongo (snd (rollback_to_version 8 True 1
      (snd (save_to_mongo no_operators 3 (YDict [(''a'', YInt 1)])
         \<lparr>collection = [], backend = [], config_file = [], console = []\<rparr>)))))
   = [(''version'', PInt 2), (''timestamp'', PIsoformat 8),
      (''config'', PConfig (YDict [(''a'', YInt 1)]))]
   \<and> fst (fetch_all_versions (snd (rollback_to_version 8 True 1
      (snd (save_to_mongo no_operators 3 (YDict [(''a'', YInt 1)])
         \<lparr>collection = [], backend = [], config_file = [], console = []\<rparr>)))))
   = [[(''version'', PInt 1), (''timestamp'', PIsoformat 3),
       (''config'', PConfig (YDict [(''a'', YInt 1)])), (''rolled_back_from'', PNull)],
      [(''version'', PInt 2), (''timestamp'', PIsoformat 8),
       (''config'', PConfig (YDict [(''a'', YInt 1)])), (''rolled_back_from'', PInt 1)]]"
  by (simp add: fetch_latest_from_mongo_def find_one_latest_def fetch_all_versions_def
      find_sorted_def save_to_mongo_def find_one_config_def config_filter_def insert_one_def mongo_call_def
      rollback_to_version_def find_one_version_def dump_config_def print_line_def)

section \<open>Ingestion\<close>

text \<open>
  C10. A modification event on the watched path whose file parses to the empty
  mapping takes no store action: no backend operation is attempted and nothing is
  saved; only the notice of the change is printed. A file that fails to load and a
  file whose top level is not a mapping are dropped in the same way, each with its
  error line.
\<close>

theorem empty_mapping_not_saved:
  assumes "abspath src_path = abspath cfg"
  shows "on_modified srv abspath cfg now (Loads (YDict [])) src_path w =
           (None, w\<lparr>console := console w @ [DetectedChanges]\<rparr>)
       \<and> on_modified srv abspath cfg now LoadRaises src_path w =
           (None, w\<lparr>console := console w @ [DetectedChanges, ErrReadingYaml]\<rparr>)
       \<and> on_modified srv abspath cfg now (Loads (YList xs)) src_path w =
           (None, w\<lparr>console := console w @ [DetectedChanges, ErrTopLevel]\<rparr>)"
  using assms by (simp add: on_modified_def read_config_def print_line_def)

theorem empty_mapping_not_saved_witness:
  "on_modified no_operators (\<lambda>p. p) ''config.yaml'' 9 (Loads (YDict [])) ''config.yaml''
     \<lparr>collection = [], backend = [], config_file = [], console = []\<rparr>
   = (None, \<lparr>collection = [], backend = [], config_file = [], console = [DetectedChanges]\<rparr>)"
  using empty_mapping_not_saved[of "\<lambda>p. p" "''config.yaml''" "''config.yaml''" no_operators 9
      "\<lparr>collection = [], backend = [], config_file = [], console = []\<rparr>"]
  by simp

text \<open>By contrast, a mapping with an entry is normalised and saved.\<close>

lemma nonempty_mapping_saved:
  "on_modified no_operators (\<lambda>p. p) ''config.yaml'' 9 (Loads (YDict [(''a'', YStr ''1'')])) ''config.yaml''
     \<lparr>collection = [], backend = [], config_file = [], console = []\<rparr>
   = (None, \<lparr>collection = [\<lparr>version = 1, timestamp = 9, config = YDict [(''a'', YInt 1)],
                              rolled_back_from = None\<rparr>],
             backend = [], config_file = [], console = [DetectedChanges, Saved 1]\<rparr>)"
  by (simp add: on_modified_def read_config_def print_line_def isdigit_def py_int_def
      is_decimal_def is_superscript_def digit_value_def
      save_to_mongo_def find_one_config_def config_filter_def find_one_latest_def insert_one_def
      mongo_call_def)

end
